theory Spec2Isabelle
  imports Main "HOL-Library.Sublist"
begin

section \<open>The notebook data the preprocessor touches\<close>

text \<open>
  The source file is \<^verbatim>\<open>nbconvert/preprocessors/tagremove.py\<close>. Its class
  \<^verbatim>\<open>TagRemovePreprocessor\<close> works on a notebook: a dictionary-like object
  (\<^verbatim>\<open>NotebookNode\<close>) whose entries can also be read and written as attributes.
  Reading an attribute whose key is missing raises \<^verbatim>\<open>AttributeError\<close>, while
  \<^verbatim>\<open>d.get(key, default)\<close> never raises. Each entry the code reads is therefore an
  optional field here: \<open>None\<close> says that the key is absent.

  A \<^verbatim>\<open>tags\<close> entry, when present, is a list of strings: that is the notebook
  format's type for it, and other values lie outside the input type of this model.
  A metadata dictionary is its \<^verbatim>\<open>tags\<close> entry together with a map for all its
  other keys.
\<close>

datatype json = JNull | JBool bool | JInt int | JString string

record metadata =
  md_tags :: "string list option"
  md_fields :: "string \<rightharpoonup> json"

record cell_output =
  output_type :: string
  output_text :: string
  output_metadata :: "metadata option"

text \<open>
  The execution counter has three states: the key is absent (\<open>None\<close>), it holds
  Python's \<^verbatim>\<open>None\<close> (\<open>Some None\<close>), or it holds a number.
\<close>

record cell =
  cell_type :: string
  cell_source :: string
  cell_tags :: "string list option"
  cell_metadata :: "metadata option"
  cell_outputs :: "cell_output list option"
  cell_execution_count :: "int option option"

text \<open>
  The code changes cells in place, so cells are objects in a store and the notebook's
  \<^verbatim>\<open>cells\<close> list holds references to them. Outputs and metadata dictionaries are
  owned by their cell (the notebook is a tree below the cell level).
\<close>

type_synonym cell_ref = nat
type_synonym heap = "cell_ref \<Rightarrow> cell"

record notebook =
  nb_cells :: "cell_ref list"
  nb_metadata :: metadata
  nb_nbformat :: nat

datatype error = AttributeError string

text \<open>
  The preprocessor object. The class declares the three traits
  \<^verbatim>\<open>remove_cell_tags\<close>, \<^verbatim>\<open>remove_all_output_tags\<close> and
  \<^verbatim>\<open>remove_single_output_tags\<close> (lists of strings, default empty);
  \<^verbatim>\<open>remove_metadata_fields\<close> is inherited from \<^verbatim>\<open>ClearOutputPreprocessor\<close>,
  which is not part of the source file, and is taken as given. The methods also read
  \<^verbatim>\<open>self.cell_remove_tags\<close> and \<^verbatim>\<open>self.output_remove_tags\<close>, which the class
  does not declare: such an attribute exists only when something has set it on the
  object, so both are optional, \<open>None\<close> when the object has no attribute of that name.
\<close>

record tag_remove_preprocessor =
  remove_cell_tags :: "string list"
  remove_all_output_tags :: "string list"
  remove_single_output_tags :: "string list"
  remove_metadata_fields :: "string list"
  cell_remove_tags :: "string list option"
  output_remove_tags :: "string list option"

section \<open>Python primitives\<close>

text \<open>\<^verbatim>\<open>any(bs)\<close> on a list of booleans.\<close>

primrec any :: "bool list \<Rightarrow> bool" where
  "any [] = False"
| "any (b # bs) = (b \<or> any bs)"

text \<open>
  A list comprehension whose element expression can raise: the elements are evaluated
  from left to right and the first exception ends the evaluation.
\<close>

primrec comprehension :: "(error + 'a) list \<Rightarrow> error + 'a list" where
  "comprehension [] = Inr []"
| "comprehension (x # xs) =
     (case x of
        Inl e \<Rightarrow> Inl e
      | Inr v \<Rightarrow> (case comprehension xs of Inl e \<Rightarrow> Inl e | Inr vs \<Rightarrow> Inr (v # vs)))"

text \<open>\<^verbatim>\<open>cell.get('tags', [])\<close> and \<^verbatim>\<open>metadata.get('tags', [])\<close>.\<close>

definition cell_get_tags :: "cell \<Rightarrow> string list" where
  "cell_get_tags c = (case cell_tags c of None \<Rightarrow> [] | Some ts \<Rightarrow> ts)"

definition md_get_tags :: "metadata \<Rightarrow> string list" where
  "md_get_tags md = (case md_tags md of None \<Rightarrow> [] | Some ts \<Rightarrow> ts)"

text \<open>\<^verbatim>\<open>field in metadata\<close> and \<^verbatim>\<open>metadata.pop(field, None)\<close>.\<close>

definition md_contains :: "string \<Rightarrow> metadata \<Rightarrow> bool" where
  "md_contains field md =
     (if field = ''tags'' then md_tags md \<noteq> None else md_fields md field \<noteq> None)"

definition md_pop :: "string \<Rightarrow> metadata \<Rightarrow> metadata" where
  "md_pop field md =
     (if field = ''tags'' then md\<lparr>md_tags := None\<rparr>
      else md\<lparr>md_fields := (md_fields md)(field := None)\<rparr>)"

section \<open>The methods of TagRemovePreprocessor\<close>

text \<open>
  \<^verbatim>\<open>check_cell_conditions\<close>: the iterable \<^verbatim>\<open>self.cell_remove_tags\<close> is evaluated
  first, so a missing attribute raises before the cell is looked at.
\<close>

definition check_cell_conditions ::
  "tag_remove_preprocessor \<Rightarrow> cell \<Rightarrow> 'r \<Rightarrow> nat \<Rightarrow> error + bool" where
  "check_cell_conditions self c resources index =
     (case cell_remove_tags self of
        None \<Rightarrow> Inl (AttributeError ''cell_remove_tags'')
      | Some crt \<Rightarrow> Inr (\<not> any (map (\<lambda>tag. tag \<in> set (cell_get_tags c)) crt)))"

text \<open>
  \<^verbatim>\<open>check_output_conditions\<close>: \<^verbatim>\<open>output.metadata\<close> is an attribute read inside
  the comprehension, evaluated once for every tag of \<^verbatim>\<open>remove_single_output_tags\<close>.
\<close>

definition check_output_conditions ::
  "tag_remove_preprocessor \<Rightarrow> cell_output \<Rightarrow> 'r \<Rightarrow> nat \<Rightarrow> nat \<Rightarrow> error + bool" where
  "check_output_conditions self out resources cell_index output_index =
     (case comprehension
             (map (\<lambda>tag. case output_metadata out of
                       None \<Rightarrow> Inl (AttributeError ''metadata'')
                     | Some md \<Rightarrow> Inr (tag \<in> set (md_get_tags md)))
                (remove_single_output_tags self)) of
        Inl e \<Rightarrow> Inl e
      | Inr bs \<Rightarrow> Inr (\<not> any bs))"

definition preprocess_output ::
  "tag_remove_preprocessor \<Rightarrow> cell_output \<Rightarrow> 'r \<Rightarrow> nat \<Rightarrow> nat \<Rightarrow> cell_output \<times> 'r" where
  "preprocess_output self out resources cell_index output_index = (out, resources)"

text \<open>
  The comprehension over \<^verbatim>\<open>enumerate(cell.outputs)\<close> in \<^verbatim>\<open>preprocess_cell\<close>: for
  each output in turn the condition is tested, and a kept output goes through
  \<^verbatim>\<open>preprocess_output\<close>.
\<close>

fun preprocess_cell_outputs ::
  "tag_remove_preprocessor \<Rightarrow> 'r \<Rightarrow> nat \<Rightarrow> nat \<Rightarrow> cell_output list \<Rightarrow> error + cell_output list" where
  "preprocess_cell_outputs self resources cell_index output_index [] = Inr []"
| "preprocess_cell_outputs self resources cell_index output_index (out # outs) =
     (case check_output_conditions self out resources cell_index output_index of
        Inl e \<Rightarrow> Inl e
      | Inr keep \<Rightarrow>
          (case preprocess_cell_outputs self resources cell_index (Suc output_index) outs of
             Inl e \<Rightarrow> Inl e
           | Inr outs' \<Rightarrow>
               Inr (if keep
                    then fst (preprocess_output self out resources cell_index output_index) # outs'
                    else outs')))"

text \<open>
  \<^verbatim>\<open>preprocess_cell\<close> changes the cell object in place and returns it with the
  resources. The first block clears the cell when one of its tags is in
  \<^verbatim>\<open>self.output_remove_tags\<close>; the second reads \<^verbatim>\<open>cell.outputs\<close> as an
  attribute, which raises when the cell has no such key.
\<close>

definition clear_cell :: "tag_remove_preprocessor \<Rightarrow> cell \<Rightarrow> cell" where
  "clear_cell self c =
     c\<lparr>cell_outputs := Some [],
       cell_execution_count := Some None,
       cell_metadata :=
         (case cell_metadata c of
            None \<Rightarrow> None
          | Some md \<Rightarrow> Some (fold md_pop (remove_metadata_fields self) md))\<rparr>"

definition preprocess_cell ::
  "tag_remove_preprocessor \<Rightarrow> cell_ref \<Rightarrow> 'r \<Rightarrow> nat \<Rightarrow> heap \<Rightarrow> (error + cell_ref \<times> 'r) \<times> heap" where
  "preprocess_cell self r resources cell_index h =
     (case output_remove_tags self of
        None \<Rightarrow> (Inl (AttributeError ''output_remove_tags''), h)
      | Some ort \<Rightarrow>
          (let h1 = (if any (map (\<lambda>tag. tag \<in> set (cell_get_tags (h r))) ort)
                     then h(r := clear_cell self (h r)) else h)
           in case cell_outputs (h1 r) of
                None \<Rightarrow> (Inl (AttributeError ''outputs''), h1)
              | Some outs \<Rightarrow>
                  if outs \<noteq> []
                  then (case preprocess_cell_outputs self resources cell_index 0 outs of
                          Inl e \<Rightarrow> (Inl e, h1)
                        | Inr outs' \<Rightarrow>
                            (Inr (r, resources), h1(r := (h1 r)\<lparr>cell_outputs := Some outs'\<rparr>)))
                  else (Inr (r, resources), h1)))"

text \<open>
  The comprehension over \<^verbatim>\<open>enumerate(nb.cells)\<close> in \<^verbatim>\<open>preprocess\<close>: the condition
  is tested first, and only a cell that passes it is handed to
  \<^verbatim>\<open>preprocess_cell\<close>. An exception leaves the store as it is at that moment.
\<close>

fun preprocess_cells ::
  "tag_remove_preprocessor \<Rightarrow> 'r \<Rightarrow> nat \<Rightarrow> cell_ref list \<Rightarrow> heap \<Rightarrow> (error + cell_ref list) \<times> heap" where
  "preprocess_cells self resources index [] h = (Inr [], h)"
| "preprocess_cells self resources index (r # rs) h =
     (case check_cell_conditions self (h r) resources index of
        Inl e \<Rightarrow> (Inl e, h)
      | Inr keep \<Rightarrow>
          if keep
          then (case preprocess_cell self r resources index h of
                  (Inl e, h1) \<Rightarrow> (Inl e, h1)
                | (Inr (r', _), h1) \<Rightarrow>
                    (case preprocess_cells self resources (Suc index) rs h1 of
                       (Inl e, h2) \<Rightarrow> (Inl e, h2)
                     | (Inr rs', h2) \<Rightarrow> (Inr (r' # rs'), h2)))
          else preprocess_cells self resources (Suc index) rs h)"

text \<open>
  \<^verbatim>\<open>preprocess\<close>. In \<^verbatim>\<open>self.cell_remove_tags or self.output_remove_tags\<close> the
  second attribute is read only when the first list is empty.
\<close>

definition preprocess ::
  "tag_remove_preprocessor \<Rightarrow> notebook \<Rightarrow> 'r \<Rightarrow> heap \<Rightarrow> (error + notebook \<times> 'r) \<times> heap" where
  "preprocess self nb resources h =
     (let run = (case preprocess_cells self resources 0 (nb_cells nb) h of
                   (Inl e, h') \<Rightarrow> (Inl e, h')
                 | (Inr rs', h') \<Rightarrow> (Inr (nb\<lparr>nb_cells := rs'\<rparr>, resources), h'))
      in case cell_remove_tags self of
           None \<Rightarrow> (Inl (AttributeError ''cell_remove_tags''), h)
         | Some crt \<Rightarrow>
             if crt \<noteq> [] then run
             else (case output_remove_tags self of
                     None \<Rightarrow> (Inl (AttributeError ''output_remove_tags''), h)
                   | Some ort \<Rightarrow> if ort \<noteq> [] then run else (Inr (nb, resources), h)))"

section \<open>Vocabulary of the statements\<close>

text \<open>
  A tag list carries a tag of a removal list when some string of the removal list is an
  element of the tag list: plain equality of strings, so the test is exact and
  case-sensitive.
\<close>

definition has_tag_in :: "string list \<Rightarrow> string list \<Rightarrow> bool" where
  "has_tag_in tags removal = (\<exists>tag \<in> set removal. tag \<in> set tags)"

text \<open>
  The tags an output carries are those of its metadata dictionary; an output without
  metadata carries none.
\<close>

definition output_tags :: "cell_output \<Rightarrow> string list" where
  "output_tags out = (case output_metadata out of None \<Rightarrow> [] | Some md \<Rightarrow> md_get_tags md)"

text \<open>
  What a successful call of \<^verbatim>\<open>preprocess_cell\<close> makes of a cell, as a function of
  the cell alone (see \<open>preprocess_cell_Inr\<close> below).
\<close>

definition processed_cell :: "tag_remove_preprocessor \<Rightarrow> cell \<Rightarrow> cell" where
  "processed_cell self c =
     (case output_remove_tags self of
        None \<Rightarrow> c
      | Some ort \<Rightarrow>
          if has_tag_in (cell_get_tags c) ort then clear_cell self c
          else c\<lparr>cell_outputs :=
                   map_option (filter (\<lambda>out. \<not> has_tag_in (output_tags out) (remove_single_output_tags self)))
                     (cell_outputs c)\<rparr>)"

text \<open>
  The condition under which \<^verbatim>\<open>preprocess_cell\<close> returns rather than raises (see
  \<open>preprocess_cell_ok\<close> and \<open>preprocess_cell_not_ok\<close> below): the attribute
  \<^verbatim>\<open>output_remove_tags\<close> exists and, unless the cell is cleared, the cell has an
  \<^verbatim>\<open>outputs\<close> entry whose outputs all have metadata when there is a single-output
  tag to look for.
\<close>

definition cell_ok :: "tag_remove_preprocessor \<Rightarrow> cell \<Rightarrow> bool" where
  "cell_ok self c =
     (case output_remove_tags self of
        None \<Rightarrow> False
      | Some ort \<Rightarrow>
          has_tag_in (cell_get_tags c) ort \<or>
          (case cell_outputs c of
             None \<Rightarrow> False
           | Some outs \<Rightarrow>
               remove_single_output_tags self = [] \<or>
               list_all (\<lambda>out. output_metadata out \<noteq> None) outs))"

section \<open>An example notebook\<close>

text \<open>
  Five code cells, each with a tagged and an untagged output: one without tags, one
  tagged for removal and for clearing, one tagged for clearing only, one whose tag
  differs from the removal tag in case only, and one that has the removal and clearing
  tags in its metadata dictionary only. Markdown cells have neither outputs nor an
  execution counter.
\<close>

definition plain_output :: cell_output where
  "plain_output =
     \<lparr>output_type = ''execute_result'', output_text = ''2'',
      output_metadata = Some \<lparr>md_tags = None, md_fields = Map.empty\<rparr>\<rparr>"

definition hidden_output :: cell_output where
  "hidden_output =
     \<lparr>output_type = ''display_data'', output_text = ''plot'',
      output_metadata = Some \<lparr>md_tags = Some [''hide''], md_fields = Map.empty\<rparr>\<rparr>"

definition code_cell :: cell where
  "code_cell =
     \<lparr>cell_type = ''code'', cell_source = ''1 + 1'', cell_tags = None,
      cell_metadata = Some \<lparr>md_tags = None, md_fields = [''collapsed'' \<mapsto> JBool True]\<rparr>,
      cell_outputs = Some [hidden_output, plain_output],
      cell_execution_count = Some (Some 3)\<rparr>"

definition markdown_cell :: cell where
  "markdown_cell =
     \<lparr>cell_type = ''markdown'', cell_source = ''# Title'', cell_tags = None,
      cell_metadata = Some \<lparr>md_tags = None, md_fields = Map.empty\<rparr>,
      cell_outputs = None, cell_execution_count = None\<rparr>"

definition tagged_in_metadata :: metadata where
  "tagged_in_metadata = \<lparr>md_tags = Some [''remove'', ''clear''], md_fields = Map.empty\<rparr>"

definition example_heap :: heap where
  "example_heap =
     (\<lambda>_. markdown_cell)
       (10 := code_cell,
        11 := code_cell\<lparr>cell_tags := Some [''remove'', ''clear'']\<rparr>,
        12 := code_cell\<lparr>cell_tags := Some [''clear'']\<rparr>,
        13 := code_cell\<lparr>cell_tags := Some [''Remove'']\<rparr>,
        14 := code_cell\<lparr>cell_metadata := Some tagged_in_metadata\<rparr>)"

definition example_nb :: notebook where
  "example_nb = \<lparr>nb_cells = [10, 11, 12, 13, 14], nb_metadata = \<lparr>md_tags = None, md_fields = Map.empty\<rparr>, nb_nbformat = 4\<rparr>"

definition example_self :: tag_remove_preprocessor where
  "example_self =
     \<lparr>remove_cell_tags = [], remove_all_output_tags = [], remove_single_output_tags = [''hide''],
      remove_metadata_fields = [''collapsed'', ''scrolled''],
      cell_remove_tags = Some [''remove''], output_remove_tags = Some [''clear'']\<rparr>"

text \<open>
  \<open>example_self\<close> is an object on which something has set the two attributes the
  methods read. An object made by the class alone has neither: \<open>default_self\<close> is
  the object with every trait at its default, and \<open>configured_self\<close> the object
  configured through the three declared traits.
\<close>

definition default_self :: tag_remove_preprocessor where
  "default_self =
     \<lparr>remove_cell_tags = [], remove_all_output_tags = [], remove_single_output_tags = [],
      remove_metadata_fields = [''collapsed'', ''scrolled''],
      cell_remove_tags = None, output_remove_tags = None\<rparr>"

definition configured_self :: tag_remove_preprocessor where
  "configured_self =
     default_self\<lparr>remove_cell_tags := [''remove''], remove_all_output_tags := [''clear''],
       remove_single_output_tags := [''hide'']\<rparr>"

text \<open>The store after \<^verbatim>\<open>preprocess\<close> has run on the example with \<open>example_self\<close>.\<close>

definition example_heap_after :: heap where
  "example_heap_after =
     example_heap
       (10 := code_cell\<lparr>cell_outputs := Some [plain_output]\<rparr>,
        12 := code_cell
                \<lparr>cell_tags := Some [''clear''], cell_outputs := Some [],
                   cell_execution_count := Some None,
                   cell_metadata := Some \<lparr>md_tags = None, md_fields = Map.empty\<rparr>\<rparr>,
        13 := code_cell\<lparr>cell_tags := Some [''Remove''], cell_outputs := Some [plain_output]\<rparr>,
        14 := code_cell
                \<lparr>cell_metadata := Some tagged_in_metadata, cell_outputs := Some [plain_output]\<rparr>)"

section \<open>Auxiliary facts\<close>

lemma any_map: "any (map P xs) = (\<exists>x \<in> set xs. P x)"
  by (induction xs) auto

lemma any_tag_in: "any (map (\<lambda>tag. tag \<in> set ts) removal) = has_tag_in ts removal"
  by (simp add: any_map has_tag_in_def)

lemma comprehension_Inr: "comprehension (map (\<lambda>x. Inr (f x)) xs) = Inr (map f xs)"
  by (induction xs) auto

lemma comprehension_Inl: "xs \<noteq> [] \<Longrightarrow> comprehension (map (\<lambda>x. Inl e) xs) = Inl e"
  by (cases xs) auto

lemma check_output_conditions_eq:
  "check_output_conditions self out resources ci oi =
     (if remove_single_output_tags self = [] then Inr True
      else case output_metadata out of
             None \<Rightarrow> Inl (AttributeError ''metadata'')
           | Some md \<Rightarrow> Inr (\<not> has_tag_in (md_get_tags md) (remove_single_output_tags self)))"
  by (auto simp: check_output_conditions_def comprehension_Inr comprehension_Inl any_map has_tag_in_def
      split: option.splits)

lemma check_output_conditions_Inr:
  "check_output_conditions self out resources ci oi = Inr b \<Longrightarrow>
   b = (\<not> has_tag_in (output_tags out) (remove_single_output_tags self))"
  by (auto simp: check_output_conditions_eq output_tags_def has_tag_in_def split: if_splits option.splits)

lemma preprocess_cell_outputs_Inr:
  "preprocess_cell_outputs self resources ci oi outs = Inr outs' \<Longrightarrow>
   outs' = filter (\<lambda>out. \<not> has_tag_in (output_tags out) (remove_single_output_tags self)) outs"
proof (induction outs arbitrary: oi outs')
  case Nil
  then show ?case by simp
next
  case (Cons out outs)
  then show ?case
    by (auto simp: preprocess_output_def split: sum.splits dest: check_output_conditions_Inr)
qed

lemma fold_md_pop:
  "fold md_pop fs md =
     md\<lparr>md_tags := (if ''tags'' \<in> set fs then None else md_tags md),
        md_fields := (\<lambda>k. if k \<in> set fs \<and> k \<noteq> ''tags'' then None else md_fields md k)\<rparr>"
proof (induction fs arbitrary: md)
  case Nil
  then show ?case by simp
next
  case (Cons f fs)
  have "fold md_pop (f # fs) md = fold md_pop fs (md_pop f md)" by simp
  also have "\<dots> = (md_pop f md)\<lparr>md_tags := (if ''tags'' \<in> set fs then None else md_tags (md_pop f md)),
        md_fields := (\<lambda>k. if k \<in> set fs \<and> k \<noteq> ''tags'' then None else md_fields (md_pop f md) k)\<rparr>"
    by (rule Cons.IH)
  also have "\<dots> = md\<lparr>md_tags := (if ''tags'' \<in> set (f # fs) then None else md_tags md),
        md_fields := (\<lambda>k. if k \<in> set (f # fs) \<and> k \<noteq> ''tags'' then None else md_fields md k)\<rparr>"
    by (cases "f = ''tags''") (auto simp: md_pop_def fun_eq_iff)
  finally show ?case .
qed

lemma fold_md_pop_idem: "fold md_pop fs (fold md_pop fs md) = fold md_pop fs md"
  by (simp add: fold_md_pop cong: if_cong)

lemma md_contains_fold_md_pop:
  "md_contains f (fold md_pop fs md) = (md_contains f md \<and> f \<notin> set fs)"
  by (auto simp: fold_md_pop md_contains_def)

lemma cell_get_tags_clear_cell [simp]: "cell_get_tags (clear_cell self c) = cell_get_tags c"
  by (simp add: cell_get_tags_def clear_cell_def)

lemma cell_get_tags_processed_cell [simp]:
  "cell_get_tags (processed_cell self c) = cell_get_tags c"
  by (simp add: processed_cell_def split: option.splits) (simp add: cell_get_tags_def)

lemma clear_cell_idem: "clear_cell self (clear_cell self c) = clear_cell self c"
  by (simp add: clear_cell_def fold_md_pop_idem split: option.splits)

lemma processed_cell_idem:
  "processed_cell self (processed_cell self c) = processed_cell self c"
proof (cases "output_remove_tags self")
  case None
  then show ?thesis by (simp add: processed_cell_def)
next
  case (Some ort)
  show ?thesis
  proof (cases "has_tag_in (cell_get_tags c) ort")
    case True
    with Some show ?thesis by (simp add: processed_cell_def clear_cell_idem)
  next
    case False
    with Some show ?thesis
      by (cases "cell_outputs c") (simp_all add: processed_cell_def cell_get_tags_def)
  qed
qed

lemma preprocess_cell_Inl:
  "preprocess_cell self r resources i h = (Inl e, h1) \<Longrightarrow> h1 = h"
  by (auto simp: preprocess_cell_def Let_def clear_cell_def split: option.splits if_splits sum.splits)

lemma preprocess_cell_Inr:
  assumes "preprocess_cell self r resources i h = (Inr x, h1)"
  shows "x = (r, resources) \<and> h1 = h(r := processed_cell self (h r))"
proof -
  from assms obtain ort where ort: "output_remove_tags self = Some ort"
    by (auto simp: preprocess_cell_def split: option.splits)
  show ?thesis
  proof (cases "has_tag_in (cell_get_tags (h r)) ort")
    case True
    with assms ort show ?thesis
      by (simp add: preprocess_cell_def any_tag_in clear_cell_def processed_cell_def)
  next
    case False
    with assms ort show ?thesis
      by (auto simp: preprocess_cell_def any_tag_in processed_cell_def
          split: option.splits if_splits sum.splits dest: preprocess_cell_outputs_Inr)
  qed
qed

lemma check_cell_conditions_Some:
  "cell_remove_tags self = Some crt \<Longrightarrow>
   check_cell_conditions self c resources i = Inr (\<not> has_tag_in (cell_get_tags c) crt)"
  by (simp add: check_cell_conditions_def any_tag_in)

lemma preprocess_cells_Inr:
  assumes "cell_remove_tags self = Some crt"
    and "preprocess_cells self resources i rs h = (Inr rs', h')"
  shows "rs' = filter (\<lambda>r. \<not> has_tag_in (cell_get_tags (h r)) crt) rs \<and>
         h' = (\<lambda>r. if r \<in> set rs' then processed_cell self (h r) else h r)"
  using assms(2)
proof (induction rs arbitrary: i h rs' h')
  case Nil
  then show ?case by simp
next
  case (Cons r rs)
  show ?case
  proof (cases "has_tag_in (cell_get_tags (h r)) crt")
    case True
    with Cons.prems assms(1) have "preprocess_cells self resources (Suc i) rs h = (Inr rs', h')"
      by (simp add: check_cell_conditions_Some)
    from Cons.IH [OF this] True show ?thesis by simp
  next
    case False
    with Cons.prems assms(1) obtain x h1 rs1 where
      pc: "preprocess_cell self r resources i h = (Inr x, h1)" and
      rest: "preprocess_cells self resources (Suc i) rs h1 = (Inr rs1, h')" and
      rs': "rs' = fst x # rs1"
      by (auto simp: check_cell_conditions_Some split: prod.splits sum.splits)
    from preprocess_cell_Inr [OF pc] have x: "x = (r, resources)"
      and h1: "h1 = h(r := processed_cell self (h r))" by simp_all
    have tags: "cell_get_tags (h1 y) = cell_get_tags (h y)" for y
      by (simp add: h1)
    from Cons.IH [OF rest] have
      rs1: "rs1 = filter (\<lambda>r. \<not> has_tag_in (cell_get_tags (h r)) crt) rs" and
      h': "h' = (\<lambda>y. if y \<in> set rs1 then processed_cell self (h1 y) else h1 y)"
      by (simp_all add: tags)
    have "h' = (\<lambda>y. if y \<in> set rs' then processed_cell self (h y) else h y)"
      by (auto simp: h' rs' x h1 fun_eq_iff processed_cell_idem)
    with rs' x rs1 False show ?thesis by simp
  qed
qed

lemma preprocess_cells_heap:
  assumes "cell_remove_tags self = Some crt"
    and "preprocess_cells self resources i rs h = (x, h')"
  shows "h' r = h r \<or>
         (r \<in> set rs \<and> \<not> has_tag_in (cell_get_tags (h r)) crt \<and> h' r = processed_cell self (h r))"
  using assms(2)
proof (induction rs arbitrary: i h x h')
  case Nil
  then show ?case by simp
next
  case (Cons r0 rs)
  show ?case
  proof (cases "has_tag_in (cell_get_tags (h r0)) crt")
    case True
    with Cons.prems assms(1) have "preprocess_cells self resources (Suc i) rs h = (x, h')"
      by (simp add: check_cell_conditions_Some)
    from Cons.IH [OF this] show ?thesis by auto
  next
    case False
    obtain y h1 where pc: "preprocess_cell self r0 resources i h = (y, h1)"
      by (cases "preprocess_cell self r0 resources i h")
    show ?thesis
    proof (cases y)
      case (Inl e)
      with pc have "h1 = h" by (simp add: preprocess_cell_Inl)
      with Cons.prems assms(1) False pc Inl show ?thesis
        by (simp add: check_cell_conditions_Some)
    next
      case (Inr z)
      with pc have "preprocess_cell self r0 resources i h = (Inr z, h1)" by simp
      from preprocess_cell_Inr [OF this] have h1: "h1 = h(r0 := processed_cell self (h r0))"
        by simp
      obtain x1 where rest: "preprocess_cells self resources (Suc i) rs h1 = (x1, h')"
        using Cons.prems assms(1) False pc Inr
        by (auto simp: check_cell_conditions_Some split: prod.splits sum.splits)
      from Cons.IH [OF rest] False show ?thesis
        by (auto simp: h1 processed_cell_idem split: if_splits)
    qed
  qed
qed

lemma preprocess_cell_outputs_ok:
  "remove_single_output_tags self = [] \<or> list_all (\<lambda>out. output_metadata out \<noteq> None) outs \<Longrightarrow>
   preprocess_cell_outputs self resources ci oi outs =
     Inr (filter (\<lambda>out. \<not> has_tag_in (output_tags out) (remove_single_output_tags self)) outs)"
proof (induction outs arbitrary: oi)
  case Nil
  then show ?case by simp
next
  case (Cons out outs)
  then show ?case
    by (auto simp: check_output_conditions_eq preprocess_output_def output_tags_def has_tag_in_def)
qed

lemma preprocess_cell_outputs_not_ok:
  "remove_single_output_tags self \<noteq> [] \<Longrightarrow> \<not> list_all (\<lambda>out. output_metadata out \<noteq> None) outs \<Longrightarrow>
   preprocess_cell_outputs self resources ci oi outs = Inl (AttributeError ''metadata'')"
proof (induction outs arbitrary: oi)
  case Nil
  then show ?case by simp
next
  case (Cons out outs)
  then show ?case
    by (auto simp: check_output_conditions_eq split: option.splits sum.splits)
qed

lemma preprocess_cell_ok:
  assumes "cell_ok self (h r)"
  shows "preprocess_cell self r resources i h =
           (Inr (r, resources), h(r := processed_cell self (h r)))"
proof -
  from assms obtain ort where ort: "output_remove_tags self = Some ort"
    by (auto simp: cell_ok_def split: option.splits)
  show ?thesis
  proof (cases "has_tag_in (cell_get_tags (h r)) ort")
    case True
    with ort show ?thesis
      by (simp add: preprocess_cell_def any_tag_in clear_cell_def processed_cell_def)
  next
    case False
    with assms ort obtain outs where outs: "cell_outputs (h r) = Some outs"
      and ok: "remove_single_output_tags self = [] \<or> list_all (\<lambda>out. output_metadata out \<noteq> None) outs"
      by (auto simp: cell_ok_def split: option.splits)
    from False ort outs preprocess_cell_outputs_ok [OF ok, of resources i 0] show ?thesis
      by (auto simp: preprocess_cell_def any_tag_in processed_cell_def)
  qed
qed

lemma preprocess_cell_not_ok:
  assumes "\<not> cell_ok self (h r)"
  shows "\<exists>e. preprocess_cell self r resources i h = (Inl e, h)"
proof (cases "output_remove_tags self")
  case None
  then show ?thesis by (simp add: preprocess_cell_def)
next
  case (Some ort)
  with assms have nt: "\<not> has_tag_in (cell_get_tags (h r)) ort" by (simp add: cell_ok_def)
  show ?thesis
  proof (cases "cell_outputs (h r)")
    case None
    with Some nt show ?thesis by (simp add: preprocess_cell_def any_tag_in)
  next
    case (Some outs)
    with assms \<open>output_remove_tags self = Some ort\<close> nt
    have "remove_single_output_tags self \<noteq> []" "\<not> list_all (\<lambda>out. output_metadata out \<noteq> None) outs"
      by (simp_all add: cell_ok_def)
    from preprocess_cell_outputs_not_ok [OF this, of resources i 0] Some
      \<open>output_remove_tags self = Some ort\<close> nt
    show ?thesis by (auto simp: preprocess_cell_def any_tag_in)
  qed
qed

lemma preprocess_cell_Inr_ok:
  "preprocess_cell self r resources i h = (Inr x, h1) \<Longrightarrow> cell_ok self (h r)"
  using preprocess_cell_not_ok [of self h r resources i] by auto

lemma cell_ok_processed_cell: "cell_ok self c \<Longrightarrow> cell_ok self (processed_cell self c)"
  by (auto simp: cell_ok_def processed_cell_def cell_get_tags_def clear_cell_def list_all_iff
      split: option.splits)

lemma preprocess_cells_Inr_ok:
  assumes "cell_remove_tags self = Some crt"
    and "preprocess_cells self resources i rs h = (Inr rs', h')"
    and "r \<in> set rs'"
  shows "cell_ok self (h r)"
  using assms(2,3)
proof (induction rs arbitrary: i h rs' h')
  case Nil
  then show ?case by simp
next
  case (Cons r0 rs)
  show ?case
  proof (cases "has_tag_in (cell_get_tags (h r0)) crt")
    case True
    with Cons.prems assms(1) have "preprocess_cells self resources (Suc i) rs h = (Inr rs', h')"
      by (simp add: check_cell_conditions_Some)
    from Cons.IH [OF this] Cons.prems(2) show ?thesis by simp
  next
    case False
    with Cons.prems assms(1) obtain x h1 rs1 where
      pc: "preprocess_cell self r0 resources i h = (Inr x, h1)" and
      rest: "preprocess_cells self resources (Suc i) rs h1 = (Inr rs1, h')" and
      rs': "rs' = fst x # rs1"
      by (auto simp: check_cell_conditions_Some split: prod.splits sum.splits)
    from preprocess_cell_Inr [OF pc] have x: "x = (r0, resources)"
      and h1: "h1 = h(r0 := processed_cell self (h r0))" by simp_all
    have ok0: "cell_ok self (h r0)" using pc by (rule preprocess_cell_Inr_ok)
    show ?thesis
    proof (cases "r = r0")
      case True
      with ok0 show ?thesis by simp
    next
      case False
      with Cons.prems(2) rs' x have "r \<in> set rs1" by simp
      from Cons.IH [OF rest this] False show ?thesis by (simp add: h1)
    qed
  qed
qed

lemma preprocess_cells_ok:
  assumes "cell_remove_tags self = Some crt"
    and "list_all (\<lambda>r. has_tag_in (cell_get_tags (h r)) crt \<or> cell_ok self (h r)) rs"
  shows "preprocess_cells self resources i rs h =
           (Inr (filter (\<lambda>r. \<not> has_tag_in (cell_get_tags (h r)) crt) rs),
            (\<lambda>r. if r \<in> set rs \<and> \<not> has_tag_in (cell_get_tags (h r)) crt
                 then processed_cell self (h r) else h r))"
  using assms(2)
proof (induction rs arbitrary: i h)
  case Nil
  then show ?case by simp
next
  case (Cons r0 rs)
  show ?case
  proof (cases "has_tag_in (cell_get_tags (h r0)) crt")
    case True
    with Cons.prems have "list_all (\<lambda>r. has_tag_in (cell_get_tags (h r)) crt \<or> cell_ok self (h r)) rs"
      by simp
    from Cons.IH [OF this, of "Suc i"] True assms(1) show ?thesis
      by (auto simp: check_cell_conditions_Some fun_eq_iff)
  next
    case False
    with Cons.prems have ok0: "cell_ok self (h r0)" by simp
    define h1 where "h1 = h(r0 := processed_cell self (h r0))"
    have tags: "cell_get_tags (h1 y) = cell_get_tags (h y)" for y
      by (simp add: h1_def)
    have "list_all (\<lambda>r. has_tag_in (cell_get_tags (h1 r)) crt \<or> cell_ok self (h1 r)) rs"
      using Cons.prems ok0 by (auto simp: list_all_iff h1_def cell_ok_processed_cell)
    from Cons.IH [OF this, of "Suc i"] False assms(1) ok0
      preprocess_cell_ok [of self h r0 resources i]
    show ?thesis
      by (auto simp: check_cell_conditions_Some fun_eq_iff tags h1_def [symmetric])
        (auto simp: h1_def processed_cell_idem)
  qed
qed

lemma example_heap_simps [simp]:
  "example_heap 10 = code_cell"
  "example_heap 11 = code_cell\<lparr>cell_tags := Some [''remove'', ''clear'']\<rparr>"
  "example_heap 12 = code_cell\<lparr>cell_tags := Some [''clear'']\<rparr>"
  "example_heap 13 = code_cell\<lparr>cell_tags := Some [''Remove'']\<rparr>"
  "example_heap 14 = code_cell\<lparr>cell_metadata := Some tagged_in_metadata\<rparr>"
  "example_heap 20 = markdown_cell"
  by (simp_all add: example_heap_def)

lemmas example_defs = example_self_def example_nb_def code_cell_def markdown_cell_def
  hidden_output_def plain_output_def tagged_in_metadata_def

lemmas method_defs = preprocess_def preprocess_cell_def check_cell_conditions_def
  check_output_conditions_def preprocess_output_def clear_cell_def
  cell_get_tags_def md_get_tags_def md_pop_def

lemma example_run:
  "preprocess example_self example_nb () example_heap =
     (Inr (example_nb\<lparr>nb_cells := [10, 12, 13, 14]\<rparr>, ()), example_heap_after)"
  by (simp add: method_defs example_defs example_heap_after_def)

lemma has_tag_in_Nil [simp]: "\<not> has_tag_in ts []"
  by (simp add: has_tag_in_def)

lemma preprocess_Inr:
  assumes "preprocess self nb resources h = (Inr (nb', resources'), h')"
  shows "\<exists>crt. cell_remove_tags self = Some crt \<and> resources' = resources \<and>
           ((crt = [] \<and> output_remove_tags self = Some [] \<and> nb' = nb \<and> h' = h) \<or>
            ((crt \<noteq> [] \<or> (\<exists>ort. output_remove_tags self = Some ort \<and> ort \<noteq> [])) \<and>
             preprocess_cells self resources 0 (nb_cells nb) h = (Inr (nb_cells nb'), h') \<and>
             nb' = nb\<lparr>nb_cells := nb_cells nb'\<rparr>))"
  using assms
  by (auto simp: preprocess_def Let_def split: option.splits if_splits prod.splits sum.splits)

lemma preprocess_Inr_cells:
  assumes "cell_remove_tags self = Some crt"
    and "preprocess self nb resources h = (Inr (nb', resources'), h')"
  shows "nb' = nb\<lparr>nb_cells := filter (\<lambda>r. \<not> has_tag_in (cell_get_tags (h r)) crt) (nb_cells nb)\<rparr>"
    and "resources' = resources"
proof -
  from preprocess_Inr [OF assms(2)] assms(1)
  have res: "resources' = resources" and
    cases: "(crt = [] \<and> nb' = nb) \<or>
      (preprocess_cells self resources 0 (nb_cells nb) h = (Inr (nb_cells nb'), h') \<and>
       nb' = nb\<lparr>nb_cells := nb_cells nb'\<rparr>)"
    by auto
  show "resources' = resources" by (rule res)
  from cases show "nb' = nb\<lparr>nb_cells := filter (\<lambda>r. \<not> has_tag_in (cell_get_tags (h r)) crt) (nb_cells nb)\<rparr>"
  proof
    assume "crt = [] \<and> nb' = nb"
    then show ?thesis by simp
  next
    assume run: "preprocess_cells self resources 0 (nb_cells nb) h = (Inr (nb_cells nb'), h') \<and>
       nb' = nb\<lparr>nb_cells := nb_cells nb'\<rparr>"
    with preprocess_cells_Inr [OF assms(1), of resources 0 "nb_cells nb" h "nb_cells nb'" h']
    have "nb_cells nb' = filter (\<lambda>r. \<not> has_tag_in (cell_get_tags (h r)) crt) (nb_cells nb)"
      by simp
    with run show ?thesis by metis
  qed
qed

lemma preprocess_Inr_run:
  assumes "preprocess self nb resources h = (Inr (nb', resources'), h')"
    and "output_remove_tags self = Some ort"
    and "cell_remove_tags self \<noteq> Some [] \<or> ort \<noteq> []"
    and "r \<in> set (nb_cells nb')"
  shows "h' r = processed_cell self (h r)" and "cell_ok self (h r)"
proof -
  from preprocess_Inr [OF assms(1)] assms(2,3) obtain crt where
    crt: "cell_remove_tags self = Some crt" and
    run: "preprocess_cells self resources 0 (nb_cells nb) h = (Inr (nb_cells nb'), h')"
    by auto
  from preprocess_cells_Inr [OF crt run] assms(4) show "h' r = processed_cell self (h r)"
    by simp
  from preprocess_cells_Inr_ok [OF crt run assms(4)] show "cell_ok self (h r)" .
qed

lemma preprocess_heap:
  assumes "preprocess self nb resources h = (x, h')"
  shows "h' r = h r \<or>
         (r \<in> set (nb_cells nb) \<and> h' r = processed_cell self (h r) \<and>
          (\<exists>crt. cell_remove_tags self = Some crt \<and> \<not> has_tag_in (cell_get_tags (h r)) crt))"
proof (cases "cell_remove_tags self")
  case None
  with assms show ?thesis by (simp add: preprocess_def)
next
  case (Some crt)
  have run: "h' r = h r \<or>
         (r \<in> set (nb_cells nb) \<and> \<not> has_tag_in (cell_get_tags (h r)) crt \<and> h' r = processed_cell self (h r))"
    if "preprocess_cells self resources 0 (nb_cells nb) h = (y, h')" for y
    using preprocess_cells_heap [OF Some that] .
  from assms Some show ?thesis
    by (auto simp: preprocess_def Let_def split: option.splits if_splits prod.splits sum.splits dest: run)
qed

section \<open>Cell removal\<close>

text \<open>
  On an object that has the attribute \<^verbatim>\<open>cell_remove_tags\<close>, and on a run that
  returns, the cell list of the returned notebook is the input cell list without the
  cells that carry a tag of that attribute: every such cell is absent, every other cell
  is present, and the relative order is that of the input. A cell carries a tag when
  the tag is an element of its own \<^verbatim>\<open>tags\<close> list, by equality of strings.
\<close>

theorem tagged_cells_removed_others_kept_in_order:
  assumes "cell_remove_tags self = Some crt"
    and "preprocess self nb resources h = (Inr (nb', resources'), h')"
  shows "nb_cells nb' = filter (\<lambda>r. \<not> has_tag_in (cell_get_tags (h r)) crt) (nb_cells nb)"
  using preprocess_Inr_cells(1) [OF assms] by simp

text \<open>
  On the example the second cell is removed; the fourth, tagged \<^verbatim>\<open>Remove\<close> with a
  capital letter, stays.
\<close>

theorem tagged_cells_removed_others_kept_in_order_witness:
  "cell_remove_tags example_self = Some [''remove''] \<and>
   preprocess example_self example_nb () example_heap =
     (Inr (example_nb\<lparr>nb_cells := [10, 12, 13, 14]\<rparr>, ()), example_heap_after) \<and>
   nb_cells example_nb = [10, 11, 12, 13, 14] \<and>
   has_tag_in (cell_get_tags (example_heap 11)) [''remove''] \<and>
   cell_get_tags (example_heap 13) = [''Remove''] \<and>
   nb_cells (example_nb\<lparr>nb_cells := [10, 12, 13, 14]\<rparr>) =
     filter (\<lambda>r. \<not> has_tag_in (cell_get_tags (example_heap r)) [''remove'']) (nb_cells example_nb)"
proof -
  have crt: "cell_remove_tags example_self = Some [''remove'']"
    by (simp add: example_self_def)
  from tagged_cells_removed_others_kept_in_order [OF crt example_run] crt example_run
  show ?thesis
    by (simp add: example_nb_def has_tag_in_def cell_get_tags_def code_cell_def)
qed

text \<open>
  Claim C1 says that, for every document and every configuration, a cell carrying a tag
  of the configured cell-removal tags is absent from the filtered document and every
  other cell is present, in order. The code does not do that. The configured tags are
  the trait \<^verbatim>\<open>remove_cell_tags\<close>, which no method reads: on an object configured
  with it \<^verbatim>\<open>preprocess\<close> raises \<^verbatim>\<open>AttributeError\<close> and the tagged cell stays.
  Even with the attribute \<^verbatim>\<open>cell_remove_tags\<close> set, a markdown cell after the tagged
  cell makes the call raise before the cell list is replaced, and a cell whose
  \<^verbatim>\<open>remove\<close> tag is in its metadata, where notebooks keep tags, is kept.
\<close>

theorem configured_removal_tags_remove_nothing:
  "remove_cell_tags configured_self = [''remove''] \<and>
   nb_cells example_nb = [10, 11, 12, 13, 14] \<and>
   cell_get_tags (example_heap 11) = [''remove'', ''clear''] \<and>
   has_tag_in (cell_get_tags (example_heap 11)) (remove_cell_tags configured_self) \<and>
   preprocess configured_self example_nb () example_heap =
     (Inl (AttributeError ''cell_remove_tags''), example_heap) \<and>
   cell_remove_tags example_self = Some [''remove''] \<and>
   example_heap 20 = markdown_cell \<and>
   preprocess example_self (example_nb\<lparr>nb_cells := [11, 20]\<rparr>) () example_heap =
     (Inl (AttributeError ''outputs''), example_heap) \<and>
   cell_tags (example_heap 14) = None \<and>
   cell_metadata (example_heap 14) = Some tagged_in_metadata \<and>
   md_get_tags tagged_in_metadata = [''remove'', ''clear''] \<and>
   fst (preprocess example_self example_nb () example_heap) =
     Inr (example_nb\<lparr>nb_cells := [10, 12, 13, 14]\<rparr>, ())"
  by (simp add: method_defs example_defs configured_self_def default_self_def has_tag_in_def)

section \<open>The short circuit\<close>

text \<open>
  When the three tag lists the methods read (\<^verbatim>\<open>cell_remove_tags\<close>,
  \<^verbatim>\<open>output_remove_tags\<close> and \<^verbatim>\<open>remove_single_output_tags\<close>) are present and
  empty, \<^verbatim>\<open>preprocess\<close> returns the notebook it was given and leaves every cell as
  it is.
\<close>

theorem empty_tag_sets_identity:
  assumes "cell_remove_tags self = Some []"
    and "output_remove_tags self = Some []"
    and "remove_single_output_tags self = []"
  shows "preprocess self nb resources h = (Inr (nb, resources), h)"
  using assms by (simp add: preprocess_def)

theorem empty_tag_sets_identity_witness:
  "cell_remove_tags (example_self\<lparr>cell_remove_tags := Some [], output_remove_tags := Some [],
       remove_single_output_tags := []\<rparr>) = Some [] \<and>
   output_remove_tags (example_self\<lparr>cell_remove_tags := Some [], output_remove_tags := Some [],
       remove_single_output_tags := []\<rparr>) = Some [] \<and>
   remove_single_output_tags (example_self\<lparr>cell_remove_tags := Some [],
       output_remove_tags := Some [], remove_single_output_tags := []\<rparr>) = [] \<and>
   preprocess (example_self\<lparr>cell_remove_tags := Some [], output_remove_tags := Some [],
       remove_single_output_tags := []\<rparr>) example_nb () example_heap
     = (Inr (example_nb, ()), example_heap)"
  using empty_tag_sets_identity
    [of "example_self\<lparr>cell_remove_tags := Some [], output_remove_tags := Some [],
       remove_single_output_tags := []\<rparr>" example_nb "()" example_heap]
  by simp

text \<open>
  Claim C4 says that \<^verbatim>\<open>preprocess\<close> returns the document unchanged when the three
  configured tag sets are empty. That is the object with every trait at its default,
  and on it the first line of \<^verbatim>\<open>preprocess\<close> reads \<^verbatim>\<open>self.cell_remove_tags\<close>,
  an attribute the class does not declare: the call raises \<^verbatim>\<open>AttributeError\<close> on
  every notebook, the empty one included, and returns nothing.
\<close>

theorem default_object_raises:
  "remove_cell_tags default_self = [] \<and>
   remove_all_output_tags default_self = [] \<and>
   remove_single_output_tags default_self = [] \<and>
   preprocess default_self example_nb () example_heap =
     (Inl (AttributeError ''cell_remove_tags''), example_heap) \<and>
   preprocess default_self (example_nb\<lparr>nb_cells := []\<rparr>) () example_heap =
     (Inl (AttributeError ''cell_remove_tags''), example_heap)"
  by (simp add: method_defs example_defs default_self_def)

text \<open>
  Claim C9. The test that skips the preprocessing looks at \<^verbatim>\<open>cell_remove_tags\<close> and
  \<^verbatim>\<open>output_remove_tags\<close> only: when both are empty and
  \<^verbatim>\<open>remove_single_output_tags\<close> is not, \<^verbatim>\<open>preprocess\<close> returns the notebook
  unchanged, and no output is filtered.
\<close>

theorem short_circuit_ignores_single_output_tags:
  assumes "cell_remove_tags self = Some []"
    and "output_remove_tags self = Some []"
    and "remove_single_output_tags self \<noteq> []"
  shows "preprocess self nb resources h = (Inr (nb, resources), h)"
  using assms by (simp add: preprocess_def)

text \<open>
  On the example the output tagged \<^verbatim>\<open>hide\<close> stays in the first cell although
  \<^verbatim>\<open>hide\<close> is a single-output removal tag.
\<close>

theorem short_circuit_ignores_single_output_tags_witness:
  "cell_remove_tags (example_self\<lparr>cell_remove_tags := Some [], output_remove_tags := Some []\<rparr>) = Some [] \<and>
   output_remove_tags (example_self\<lparr>cell_remove_tags := Some [], output_remove_tags := Some []\<rparr>) = Some [] \<and>
   remove_single_output_tags (example_self\<lparr>cell_remove_tags := Some [], output_remove_tags := Some []\<rparr>) = [''hide''] \<and>
   has_tag_in (output_tags hidden_output) [''hide''] \<and>
   cell_outputs (example_heap 10) = Some [hidden_output, plain_output] \<and>
   preprocess (example_self\<lparr>cell_remove_tags := Some [], output_remove_tags := Some []\<rparr>)
       example_nb () example_heap
     = (Inr (example_nb, ()), example_heap)"
  using short_circuit_ignores_single_output_tags
    [of "example_self\<lparr>cell_remove_tags := Some [], output_remove_tags := Some []\<rparr>"
        example_nb "()" example_heap]
  by (simp add: example_self_def code_cell_def has_tag_in_def output_tags_def hidden_output_def
      md_get_tags_def)

section \<open>Output clearing\<close>

text \<open>
  On a run that returns, a cell that is in the returned notebook and carries a tag of
  the attribute \<^verbatim>\<open>output_remove_tags\<close> ends with an empty output list, with
  \<^verbatim>\<open>None\<close> as its execution counter, and with none of the names of
  \<^verbatim>\<open>remove_metadata_fields\<close> as a key of its metadata dictionary (when it has one).
\<close>

theorem output_removal_tag_clears_cell:
  assumes "output_remove_tags self = Some ort"
    and "preprocess self nb resources h = (Inr (nb', resources'), h')"
    and "r \<in> set (nb_cells nb')"
    and "has_tag_in (cell_get_tags (h r)) ort"
  shows "cell_outputs (h' r) = Some [] \<and>
         cell_execution_count (h' r) = Some None \<and>
         (case cell_metadata (h' r) of
            None \<Rightarrow> True
          | Some md \<Rightarrow> \<forall>field \<in> set (remove_metadata_fields self). \<not> md_contains field md)"
proof -
  from assms(4) have "ort \<noteq> []" by (auto simp: has_tag_in_def)
  with preprocess_Inr_run(1) [OF assms(2) assms(1) _ assms(3)]
  have "h' r = processed_cell self (h r)" by simp
  with assms(1,4) have "h' r = clear_cell self (h r)" by (simp add: processed_cell_def)
  then show ?thesis
    by (simp add: clear_cell_def md_contains_fold_md_pop split: option.splits)
qed

theorem output_removal_tag_clears_cell_witness:
  "output_remove_tags example_self = Some [''clear''] \<and>
   preprocess example_self example_nb () example_heap =
     (Inr (example_nb\<lparr>nb_cells := [10, 12, 13, 14]\<rparr>, ()), example_heap_after) \<and>
   12 \<in> set (nb_cells (example_nb\<lparr>nb_cells := [10, 12, 13, 14]\<rparr>)) \<and>
   has_tag_in (cell_get_tags (example_heap 12)) [''clear''] \<and>
   cell_outputs (example_heap 12) = Some [hidden_output, plain_output] \<and>
   cell_execution_count (example_heap 12) = Some (Some 3) \<and>
   remove_metadata_fields example_self = [''collapsed'', ''scrolled''] \<and>
   cell_outputs (example_heap_after 12) = Some [] \<and>
   cell_execution_count (example_heap_after 12) = Some None \<and>
   cell_metadata (example_heap_after 12) = Some \<lparr>md_tags = None, md_fields = Map.empty\<rparr> \<and>
   \<not> md_contains ''collapsed'' \<lparr>md_tags = None, md_fields = Map.empty\<rparr> \<and>
   \<not> md_contains ''scrolled'' \<lparr>md_tags = None, md_fields = Map.empty\<rparr>"
proof -
  have ort: "output_remove_tags example_self = Some [''clear'']"
    by (simp add: example_self_def)
  have r: "12 \<in> set (nb_cells (example_nb\<lparr>nb_cells := [10, 12, 13, 14]\<rparr>))"
    by simp
  have t: "has_tag_in (cell_get_tags (example_heap 12)) [''clear'']"
    by (simp add: has_tag_in_def cell_get_tags_def)
  from output_removal_tag_clears_cell [OF ort example_run r t] ort example_run r t
  show ?thesis
    by (simp add: example_heap_after_def example_self_def code_cell_def md_contains_def)
qed

text \<open>
  Claim C2 says that every surviving cell carrying a tag of the configured all-output
  removal tags ends with no outputs, no execution counter and none of the listed
  metadata fields. The code does not do that. The configured tags are the trait
  \<^verbatim>\<open>remove_all_output_tags\<close>, which no method reads: on an object configured with
  it the cell tagged \<^verbatim>\<open>clear\<close> keeps its two outputs and its counter, and
  \<^verbatim>\<open>preprocess\<close> raises \<^verbatim>\<open>AttributeError\<close>, on \<^verbatim>\<open>cell_remove_tags\<close> and, when
  that attribute alone is supplied, on \<^verbatim>\<open>output_remove_tags\<close>.
\<close>

theorem configured_clearing_tags_clear_nothing:
  "remove_all_output_tags configured_self = [''clear''] \<and>
   cell_get_tags (example_heap 12) = [''clear''] \<and>
   has_tag_in (cell_get_tags (example_heap 12)) (remove_all_output_tags configured_self) \<and>
   cell_outputs (example_heap 12) = Some [hidden_output, plain_output] \<and>
   cell_execution_count (example_heap 12) = Some (Some 3) \<and>
   preprocess configured_self (example_nb\<lparr>nb_cells := [12]\<rparr>) () example_heap =
     (Inl (AttributeError ''cell_remove_tags''), example_heap) \<and>
   preprocess (configured_self\<lparr>cell_remove_tags := Some []\<rparr>)
       (example_nb\<lparr>nb_cells := [12]\<rparr>) () example_heap =
     (Inl (AttributeError ''output_remove_tags''), example_heap) \<and>
   preprocess (configured_self\<lparr>cell_remove_tags := Some [''remove'']\<rparr>)
       (example_nb\<lparr>nb_cells := [12]\<rparr>) () example_heap =
     (Inl (AttributeError ''output_remove_tags''), example_heap)"
  by (simp add: method_defs example_defs configured_self_def default_self_def has_tag_in_def)

section \<open>Removal comes before output processing\<close>

text \<open>
  A cell that carries a tag of the attribute \<^verbatim>\<open>cell_remove_tags\<close> is skipped by the
  comprehension of \<^verbatim>\<open>preprocess\<close> without a call of \<^verbatim>\<open>preprocess_cell\<close>: the
  cell object is left exactly as it was, whether \<^verbatim>\<open>preprocess\<close> returns or raises,
  also when the cell carries an output-clearing tag as well, and it is not in the
  notebook that a returning run gives back.
\<close>

theorem removed_cell_is_never_processed:
  assumes "cell_remove_tags self = Some crt"
    and "has_tag_in (cell_get_tags (h r)) crt"
    and "preprocess self nb resources h = (x, h')"
  shows "preprocess_cells self resources i (r # rs) h = preprocess_cells self resources (Suc i) rs h \<and>
         h' r = h r \<and>
         (\<forall>nb' resources'. x = Inr (nb', resources') \<longrightarrow> r \<notin> set (nb_cells nb'))"
proof (intro conjI allI impI)
  from assms(1,2)
  show "preprocess_cells self resources i (r # rs) h = preprocess_cells self resources (Suc i) rs h"
    by (simp add: check_cell_conditions_Some)
next
  from preprocess_heap [OF assms(3), of r] assms(1,2) show "h' r = h r" by auto
next
  fix nb' resources'
  assume "x = Inr (nb', resources')"
  with assms(3) have "preprocess self nb resources h = (Inr (nb', resources'), h')" by simp
  from preprocess_Inr_cells(1) [OF assms(1) this] assms(2) show "r \<notin> set (nb_cells nb')"
    by (cases nb') auto
qed

theorem removed_cell_is_never_processed_witness:
  "cell_remove_tags example_self = Some [''remove''] \<and>
   has_tag_in (cell_get_tags (example_heap 11)) [''remove''] \<and>
   has_tag_in (cell_get_tags (example_heap 11)) [''clear''] \<and>
   preprocess example_self example_nb () example_heap =
     (Inr (example_nb\<lparr>nb_cells := [10, 12, 13, 14]\<rparr>, ()), example_heap_after) \<and>
   11 \<in> set (nb_cells example_nb) \<and>
   11 \<notin> set (nb_cells (example_nb\<lparr>nb_cells := [10, 12, 13, 14]\<rparr>)) \<and>
   example_heap_after 11 = example_heap 11 \<and>
   cell_outputs (example_heap_after 11) = Some [hidden_output, plain_output] \<and>
   cell_execution_count (example_heap_after 11) = Some (Some 3)"
proof -
  have crt: "cell_remove_tags example_self = Some [''remove'']"
    by (simp add: example_self_def)
  have t: "has_tag_in (cell_get_tags (example_heap 11)) [''remove'']"
    by (simp add: has_tag_in_def cell_get_tags_def)
  from removed_cell_is_never_processed
    [of example_self "[''remove'']" example_heap 11 example_nb "()" _ example_heap_after, OF crt t example_run]
  have "example_heap_after 11 = example_heap 11 \<and>
        11 \<notin> set (nb_cells (example_nb\<lparr>nb_cells := [10, 12, 13, 14]\<rparr>))"
    by blast
  with crt t example_run show ?thesis
    by (simp add: has_tag_in_def cell_get_tags_def example_nb_def code_cell_def)
qed

text \<open>
  Claim C7 says that a cell matching the configured cell-removal tags is removed from
  the document, before any output processing and without being changed. The cell is
  indeed never changed, but it is not removed. On an object configured with the trait
  \<^verbatim>\<open>remove_cell_tags\<close> the call raises \<^verbatim>\<open>AttributeError\<close> and the cell tagged
  \<^verbatim>\<open>remove\<close> stays in the document; and with the attribute
  \<^verbatim>\<open>cell_remove_tags\<close> set, a markdown cell in the same notebook makes the call
  raise, so that the cell list is never replaced and the tagged cell is still in it.
\<close>

theorem tagged_cell_stays_in_document:
  "remove_cell_tags configured_self = [''remove''] \<and>
   remove_all_output_tags configured_self = [''clear''] \<and>
   cell_get_tags (example_heap 11) = [''remove'', ''clear''] \<and>
   preprocess configured_self (example_nb\<lparr>nb_cells := [11]\<rparr>) () example_heap =
     (Inl (AttributeError ''cell_remove_tags''), example_heap) \<and>
   cell_remove_tags example_self = Some [''remove''] \<and>
   output_remove_tags example_self = Some [''clear''] \<and>
   preprocess example_self (example_nb\<lparr>nb_cells := [20, 11]\<rparr>) () example_heap =
     (Inl (AttributeError ''outputs''), example_heap) \<and>
   11 \<in> set (nb_cells (example_nb\<lparr>nb_cells := [20, 11]\<rparr>))"
  by (simp add: method_defs example_defs configured_self_def default_self_def)

section \<open>Single-output filtering\<close>

text \<open>
  When \<^verbatim>\<open>preprocess\<close> returns and one of the attributes \<^verbatim>\<open>cell_remove_tags\<close> and
  \<^verbatim>\<open>output_remove_tags\<close> is not empty, every cell of the returned notebook that
  carries no tag of \<^verbatim>\<open>output_remove_tags\<close> keeps exactly its outputs that carry no
  tag of \<^verbatim>\<open>remove_single_output_tags\<close>, in their original order, and a cell that
  carries a tag of \<^verbatim>\<open>output_remove_tags\<close> ends with no outputs at all.
\<close>

theorem single_output_filtering:
  assumes "cell_remove_tags self = Some crt"
    and "output_remove_tags self = Some ort"
    and "crt \<noteq> [] \<or> ort \<noteq> []"
    and "preprocess self nb resources h = (Inr (nb', resources'), h')"
    and "r \<in> set (nb_cells nb')"
  shows "if has_tag_in (cell_get_tags (h r)) ort
         then cell_outputs (h' r) = Some []
         else \<exists>outs. cell_outputs (h r) = Some outs \<and>
                cell_outputs (h' r) =
                  Some (filter (\<lambda>out. \<not> has_tag_in (output_tags out)
                                        (remove_single_output_tags self)) outs)"
proof -
  from assms(1,3) have "cell_remove_tags self \<noteq> Some [] \<or> ort \<noteq> []" by auto
  from preprocess_Inr_run [OF assms(4) assms(2) this assms(5)]
  have h': "h' r = processed_cell self (h r)" and ok: "cell_ok self (h r)" .
  show ?thesis
  proof (cases "has_tag_in (cell_get_tags (h r)) ort")
    case True
    with h' assms(2) show ?thesis by (simp add: processed_cell_def clear_cell_def)
  next
    case False
    with ok assms(2) obtain outs where "cell_outputs (h r) = Some outs"
      by (auto simp: cell_ok_def split: option.splits)
    with False h' assms(2) show ?thesis by (simp add: processed_cell_def)
  qed
qed

theorem single_output_filtering_witness:
  "cell_remove_tags example_self = Some [''remove''] \<and>
   output_remove_tags example_self = Some [''clear''] \<and>
   remove_single_output_tags example_self = [''hide''] \<and>
   preprocess example_self example_nb () example_heap =
     (Inr (example_nb\<lparr>nb_cells := [10, 12, 13, 14]\<rparr>, ()), example_heap_after) \<and>
   10 \<in> set (nb_cells (example_nb\<lparr>nb_cells := [10, 12, 13, 14]\<rparr>)) \<and>
   \<not> has_tag_in (cell_get_tags (example_heap 10)) [''clear''] \<and>
   cell_outputs (example_heap 10) = Some [hidden_output, plain_output] \<and>
   has_tag_in (output_tags hidden_output) [''hide''] \<and>
   \<not> has_tag_in (output_tags plain_output) [''hide''] \<and>
   cell_outputs (example_heap_after 10) = Some [plain_output]"
proof -
  have crt: "cell_remove_tags example_self = Some [''remove'']"
    and ort: "output_remove_tags example_self = Some [''clear'']"
    by (simp_all add: example_self_def)
  have ne: "[''remove''] \<noteq> [] \<or> [''clear''] \<noteq> []" by simp
  have r: "10 \<in> set (nb_cells (example_nb\<lparr>nb_cells := [10, 12, 13, 14]\<rparr>))" by simp
  from single_output_filtering [OF crt ort ne example_run r] crt ort example_run
  show ?thesis
    by (simp add: has_tag_in_def cell_get_tags_def code_cell_def output_tags_def md_get_tags_def
        hidden_output_def plain_output_def example_self_def)
qed

text \<open>
  Claim C3 says that, for every document and every configuration, an output carrying a
  tag of \<^verbatim>\<open>remove_single_output_tags\<close> is absent from its surviving cell. The code
  does not do that when \<^verbatim>\<open>remove_single_output_tags\<close> is the only list configured,
  the use that the class documents for it. On the object made by the class the call
  raises \<^verbatim>\<open>AttributeError\<close>; and with the two attributes present and empty, the
  test that skips the preprocessing does not look at \<^verbatim>\<open>remove_single_output_tags\<close>,
  so the notebook comes back with the output tagged \<^verbatim>\<open>hide\<close> still in its cell.
\<close>

theorem single_output_tags_not_applied:
  "remove_single_output_tags
     (default_self\<lparr>remove_single_output_tags := [''hide'']\<rparr>) = [''hide''] \<and>
   cell_outputs (example_heap 10) = Some [hidden_output, plain_output] \<and>
   output_tags hidden_output = [''hide''] \<and>
   preprocess (default_self\<lparr>remove_single_output_tags := [''hide'']\<rparr>)
       (example_nb\<lparr>nb_cells := [10]\<rparr>) () example_heap =
     (Inl (AttributeError ''cell_remove_tags''), example_heap) \<and>
   preprocess (default_self\<lparr>remove_single_output_tags := [''hide''],
         cell_remove_tags := Some [], output_remove_tags := Some []\<rparr>)
       (example_nb\<lparr>nb_cells := [10]\<rparr>) () example_heap =
     (Inr (example_nb\<lparr>nb_cells := [10]\<rparr>, ()), example_heap)"
  by (simp add: method_defs example_defs default_self_def output_tags_def)

section \<open>What filtering leaves alone\<close>



section \<open>The attributes the methods read\<close>

text \<open>
  No method depends on the traits \<^verbatim>\<open>remove_cell_tags\<close> and
  \<^verbatim>\<open>remove_all_output_tags\<close>: setting them changes no result.
\<close>

lemma check_output_conditions_traits:
  "check_output_conditions (self\<lparr>remove_cell_tags := a, remove_all_output_tags := b\<rparr>)
     out resources ci oi = check_output_conditions self out resources ci oi"
  by (simp add: check_output_conditions_def)

lemma preprocess_output_traits:
  "preprocess_output (self\<lparr>remove_cell_tags := a, remove_all_output_tags := b\<rparr>)
     out resources ci oi = preprocess_output self out resources ci oi"
  by (simp add: preprocess_output_def)

lemma clear_cell_traits:
  "clear_cell (self\<lparr>remove_cell_tags := a, remove_all_output_tags := b\<rparr>) c = clear_cell self c"
  by (cases "cell_metadata c") (simp_all add: clear_cell_def)

lemma preprocess_cell_outputs_traits:
  "preprocess_cell_outputs (self\<lparr>remove_cell_tags := a, remove_all_output_tags := b\<rparr>)
     resources ci oi outs = preprocess_cell_outputs self resources ci oi outs"
  by (induction outs arbitrary: oi)
    (auto simp: check_output_conditions_traits preprocess_output_traits split: sum.splits)

lemma preprocess_cell_traits:
  "preprocess_cell (self\<lparr>remove_cell_tags := a, remove_all_output_tags := b\<rparr>) r resources i h =
   preprocess_cell self r resources i h"
  by (auto simp: preprocess_cell_def Let_def preprocess_cell_outputs_traits clear_cell_traits
      split: option.splits sum.splits)

lemma check_cell_conditions_traits:
  "check_cell_conditions (self\<lparr>remove_cell_tags := a, remove_all_output_tags := b\<rparr>) c resources i =
   check_cell_conditions self c resources i"
  by (simp add: check_cell_conditions_def)

lemma preprocess_cells_traits:
  "preprocess_cells (self\<lparr>remove_cell_tags := a, remove_all_output_tags := b\<rparr>) resources i rs h =
   preprocess_cells self resources i rs h"
  by (induction rs arbitrary: i h)
    (auto simp: check_cell_conditions_traits preprocess_cell_traits
      split: sum.splits prod.splits)

lemma preprocess_traits:
  "preprocess (self\<lparr>remove_cell_tags := a, remove_all_output_tags := b\<rparr>) nb resources h =
   preprocess self nb resources h"
  by (auto simp: preprocess_def Let_def preprocess_cells_traits split: option.splits)

text \<open>
  Claim C5. \<^verbatim>\<open>check_cell_conditions\<close>, \<^verbatim>\<open>preprocess\<close> and \<^verbatim>\<open>preprocess_cell\<close> read
  \<^verbatim>\<open>self.cell_remove_tags\<close> and \<^verbatim>\<open>self.output_remove_tags\<close>, not the declared traits
  \<^verbatim>\<open>remove_cell_tags\<close> and \<^verbatim>\<open>remove_all_output_tags\<close>. When the object has no
  attribute of either name, every call of \<^verbatim>\<open>preprocess\<close> raises
  \<^verbatim>\<open>AttributeError\<close> and touches nothing; and whatever the two declared traits hold,
  the three methods behave the same.
\<close>

theorem undeclared_attributes_are_read:
  "(cell_remove_tags self = None \<and> output_remove_tags self = None \<longrightarrow>
      preprocess self nb resources h = (Inl (AttributeError ''cell_remove_tags''), h)) \<and>
   check_cell_conditions self c resources i =
     (case cell_remove_tags self of
        None \<Rightarrow> Inl (AttributeError ''cell_remove_tags'')
      | Some crt \<Rightarrow> Inr (\<not> has_tag_in (cell_get_tags c) crt)) \<and>
   (output_remove_tags self = None \<longrightarrow>
      preprocess_cell self r resources i h = (Inl (AttributeError ''output_remove_tags''), h)) \<and>
   check_cell_conditions (self\<lparr>remove_cell_tags := a, remove_all_output_tags := b\<rparr>) c resources i =
     check_cell_conditions self c resources i \<and>
   preprocess_cell (self\<lparr>remove_cell_tags := a, remove_all_output_tags := b\<rparr>) r resources i h =
     preprocess_cell self r resources i h \<and>
   preprocess (self\<lparr>remove_cell_tags := a, remove_all_output_tags := b\<rparr>) nb resources h =
     preprocess self nb resources h"
  by (simp add: preprocess_traits preprocess_cell_traits check_cell_conditions_traits)
    (simp add: preprocess_def check_cell_conditions_def preprocess_cell_def any_tag_in
      split: option.splits)

text \<open>
  An object configured through the declared traits only: the call raises, and the cell
  tagged \<^verbatim>\<open>remove\<close> stays where it was.
\<close>

theorem undeclared_attributes_are_read_witness:
  "remove_cell_tags (example_self\<lparr>remove_cell_tags := [''remove''],
       remove_all_output_tags := [''clear''], cell_remove_tags := None,
       output_remove_tags := None\<rparr>) = [''remove''] \<and>
   cell_remove_tags (example_self\<lparr>remove_cell_tags := [''remove''],
       remove_all_output_tags := [''clear''], cell_remove_tags := None,
       output_remove_tags := None\<rparr>) = None \<and>
   output_remove_tags (example_self\<lparr>remove_cell_tags := [''remove''],
       remove_all_output_tags := [''clear''], cell_remove_tags := None,
       output_remove_tags := None\<rparr>) = None \<and>
   preprocess (example_self\<lparr>remove_cell_tags := [''remove''],
       remove_all_output_tags := [''clear''], cell_remove_tags := None,
       output_remove_tags := None\<rparr>) example_nb () example_heap =
     (Inl (AttributeError ''cell_remove_tags''), example_heap) \<and>
   preprocess (example_self\<lparr>remove_cell_tags := [''clear''], remove_all_output_tags := [''remove'']\<rparr>)
       example_nb () example_heap =
     (Inr (example_nb\<lparr>nb_cells := [10, 12, 13, 14]\<rparr>, ()), example_heap_after)"
proof -
  have "preprocess (example_self\<lparr>remove_cell_tags := [''remove''],
       remove_all_output_tags := [''clear''], cell_remove_tags := None,
       output_remove_tags := None\<rparr>) example_nb () example_heap =
     (Inl (AttributeError ''cell_remove_tags''), example_heap)"
    using undeclared_attributes_are_read
      [where self = "example_self\<lparr>remove_cell_tags := [''remove''],
         remove_all_output_tags := [''clear''], cell_remove_tags := None,
         output_remove_tags := None\<rparr>" and nb = example_nb and resources = "()"
         and h = example_heap]
    by simp
  moreover have "preprocess (example_self\<lparr>remove_cell_tags := [''clear''],
       remove_all_output_tags := [''remove'']\<rparr>) example_nb () example_heap =
     preprocess example_self example_nb () example_heap"
    using undeclared_attributes_are_read
      [where self = example_self and a = "[''clear'']" and b = "[''remove'']"
         and nb = example_nb and resources = "()" and h = example_heap]
    by simp
  ultimately show ?thesis using example_run by simp
qed

section \<open>Where the tags are read\<close>

text \<open>
  Claim C10. The two tests on a cell (for removal and for clearing) look at the
  \<^verbatim>\<open>tags\<close> entry of the cell itself and do not depend on the cell's metadata
  dictionary, while the test on an output looks at the \<^verbatim>\<open>tags\<close> entry of the
  output's metadata. So a cell without a removal or clearing tag at its top level is
  kept, and its execution counter and metadata stay as they are, whatever tags its
  metadata dictionary holds: only its outputs are filtered.
\<close>

theorem cell_tags_are_read_at_top_level:
  "cell_get_tags c = (case cell_tags c of None \<Rightarrow> [] | Some ts \<Rightarrow> ts) \<and>
   check_cell_conditions self (c\<lparr>cell_metadata := m\<rparr>) resources i =
     check_cell_conditions self c resources i \<and>
   any (map (\<lambda>tag. tag \<in> set (cell_get_tags (c\<lparr>cell_metadata := m\<rparr>))) ort) =
     any (map (\<lambda>tag. tag \<in> set (cell_get_tags c)) ort) \<and>
   check_output_conditions self out resources i j =
     (if remove_single_output_tags self = [] then Inr True
      else case output_metadata out of
             None \<Rightarrow> Inl (AttributeError ''metadata'')
           | Some md \<Rightarrow> Inr (\<not> has_tag_in (md_get_tags md) (remove_single_output_tags self))) \<and>
   (cell_remove_tags self = Some crt \<and> output_remove_tags self = Some ort \<and>
    preprocess self nb resources h = (Inr (nb', resources'), h') \<and>
    r \<in> set (nb_cells nb) \<and>
    \<not> has_tag_in (cell_get_tags (h r)) crt \<and> \<not> has_tag_in (cell_get_tags (h r)) ort \<longrightarrow>
      r \<in> set (nb_cells nb') \<and>
      cell_execution_count (h' r) = cell_execution_count (h r) \<and>
      cell_metadata (h' r) = cell_metadata (h r) \<and>
      (cell_outputs (h' r) = cell_outputs (h r) \<or>
       cell_outputs (h' r) =
         map_option (filter (\<lambda>out. \<not> has_tag_in (output_tags out)
                                   (remove_single_output_tags self)))
           (cell_outputs (h r))))"
proof (intro conjI impI)
  show "cell_get_tags c = (case cell_tags c of None \<Rightarrow> [] | Some ts \<Rightarrow> ts)"
    by (simp add: cell_get_tags_def)
  show "check_cell_conditions self (c\<lparr>cell_metadata := m\<rparr>) resources i =
     check_cell_conditions self c resources i"
    by (cases "cell_remove_tags self") (simp_all add: check_cell_conditions_def cell_get_tags_def)
  show "any (map (\<lambda>tag. tag \<in> set (cell_get_tags (c\<lparr>cell_metadata := m\<rparr>))) ort) =
     any (map (\<lambda>tag. tag \<in> set (cell_get_tags c)) ort)"
    by (simp add: cell_get_tags_def)
  show "check_output_conditions self out resources i j =
     (if remove_single_output_tags self = [] then Inr True
      else case output_metadata out of
             None \<Rightarrow> Inl (AttributeError ''metadata'')
           | Some md \<Rightarrow> Inr (\<not> has_tag_in (md_get_tags md) (remove_single_output_tags self)))"
    by (rule check_output_conditions_eq)
next
  assume a: "cell_remove_tags self = Some crt \<and> output_remove_tags self = Some ort \<and>
    preprocess self nb resources h = (Inr (nb', resources'), h') \<and>
    r \<in> set (nb_cells nb) \<and>
    \<not> has_tag_in (cell_get_tags (h r)) crt \<and> \<not> has_tag_in (cell_get_tags (h r)) ort"
  then have crt: "cell_remove_tags self = Some crt" and ort: "output_remove_tags self = Some ort"
    and run: "preprocess self nb resources h = (Inr (nb', resources'), h')"
    and r: "r \<in> set (nb_cells nb)"
    and nt: "\<not> has_tag_in (cell_get_tags (h r)) crt" "\<not> has_tag_in (cell_get_tags (h r)) ort"
    by simp_all
  from preprocess_Inr_cells(1) [OF crt run] r nt(1) show "r \<in> set (nb_cells nb')"
    by (cases nb) (cases nb', simp)
  from preprocess_heap [OF run, of r]
  have h': "h' r = h r \<or> h' r = processed_cell self (h r)" by auto
  have p: "processed_cell self (h r) =
     (h r)\<lparr>cell_outputs :=
             map_option (filter (\<lambda>out. \<not> has_tag_in (output_tags out)
                                       (remove_single_output_tags self)))
               (cell_outputs (h r))\<rparr>"
    using ort nt(2) by (simp add: processed_cell_def)
  from h' p show "cell_execution_count (h' r) = cell_execution_count (h r)" by auto
  from h' p show "cell_metadata (h' r) = cell_metadata (h r)" by auto
  from h' p show "cell_outputs (h' r) = cell_outputs (h r) \<or>
       cell_outputs (h' r) =
         map_option (filter (\<lambda>out. \<not> has_tag_in (output_tags out)
                                   (remove_single_output_tags self)))
           (cell_outputs (h r))"
    by auto
qed

text \<open>
  The fifth cell of the example has \<^verbatim>\<open>remove\<close> and \<^verbatim>\<open>clear\<close> among the tags of its
  metadata and no \<^verbatim>\<open>tags\<close> entry of its own: it is kept and not cleared.
\<close>

theorem cell_tags_are_read_at_top_level_witness:
  "cell_remove_tags example_self = Some [''remove''] \<and>
   output_remove_tags example_self = Some [''clear''] \<and>
   preprocess example_self example_nb () example_heap =
     (Inr (example_nb\<lparr>nb_cells := [10, 12, 13, 14]\<rparr>, ()), example_heap_after) \<and>
   14 \<in> set (nb_cells example_nb) \<and>
   cell_tags (example_heap 14) = None \<and>
   cell_metadata (example_heap 14) = Some tagged_in_metadata \<and>
   has_tag_in (md_get_tags tagged_in_metadata) [''remove''] \<and>
   has_tag_in (md_get_tags tagged_in_metadata) [''clear''] \<and>
   14 \<in> set (nb_cells (example_nb\<lparr>nb_cells := [10, 12, 13, 14]\<rparr>)) \<and>
   cell_execution_count (example_heap_after 14) = Some (Some 3) \<and>
   cell_metadata (example_heap_after 14) = Some tagged_in_metadata \<and>
   cell_outputs (example_heap_after 14) = Some [plain_output]"
proof -
  have crt: "cell_remove_tags example_self = Some [''remove'']"
    and ort: "output_remove_tags example_self = Some [''clear'']"
    by (simp_all add: example_self_def)
  have r: "14 \<in> set (nb_cells example_nb)" by (simp add: example_nb_def)
  have nt: "\<not> has_tag_in (cell_get_tags (example_heap 14)) [''remove'']"
    "\<not> has_tag_in (cell_get_tags (example_heap 14)) [''clear'']"
    by (simp_all add: has_tag_in_def cell_get_tags_def code_cell_def)
  from cell_tags_are_read_at_top_level
    [where self = example_self and ort = "[''clear'']" and crt = "[''remove'']"
       and nb = example_nb and resources = "()" and h = example_heap
       and nb' = "example_nb\<lparr>nb_cells := [10, 12, 13, 14]\<rparr>" and resources' = "()"
       and h' = example_heap_after and r = 14]
    crt ort example_run r nt
  have "14 \<in> set (nb_cells (example_nb\<lparr>nb_cells := [10, 12, 13, 14]\<rparr>)) \<and>
      cell_execution_count (example_heap_after 14) = cell_execution_count (example_heap 14) \<and>
      cell_metadata (example_heap_after 14) = cell_metadata (example_heap 14)"
    by blast
  with crt ort example_run r show ?thesis
    by (simp add: example_heap_after_def code_cell_def has_tag_in_def md_get_tags_def
        tagged_in_metadata_def)
qed

section \<open>Exceptions\<close>

text \<open>
  With both attributes present, \<^verbatim>\<open>preprocess\<close> returns when every cell it keeps
  satisfies \<open>cell_ok\<close>, and, unless it returns at once, it raises when some kept cell
  does not.
\<close>

lemma preprocess_returns:
  assumes "cell_remove_tags self = Some crt"
    and "output_remove_tags self = Some ort"
    and "list_all (\<lambda>r. has_tag_in (cell_get_tags (h r)) crt \<or> cell_ok self (h r)) (nb_cells nb)"
  shows "\<exists>nb' h'. preprocess self nb resources h = (Inr (nb', resources), h')"
  using assms(1,2) preprocess_cells_ok [OF assms(1,3), of resources 0]
  by (auto simp: preprocess_def Let_def)

lemma preprocess_raises:
  assumes "cell_remove_tags self = Some crt"
    and "crt \<noteq> [] \<or> output_remove_tags self \<noteq> Some []"
    and "r \<in> set (nb_cells nb)"
    and "\<not> has_tag_in (cell_get_tags (h r)) crt"
    and "\<not> cell_ok self (h r)"
  shows "\<exists>e h'. preprocess self nb resources h = (Inl e, h')"
proof (rule ccontr)
  assume neg: "\<not> (\<exists>e h'. preprocess self nb resources h = (Inl e, h'))"
  obtain x h' where p: "preprocess self nb resources h = (x, h')"
    by (cases "preprocess self nb resources h")
  with neg obtain y where "x = Inr y" by (cases x) auto
  then obtain nb' resources' where "x = Inr (nb', resources')" by (cases y) auto
  with p have run: "preprocess self nb resources h = (Inr (nb', resources'), h')" by simp
  from preprocess_Inr_cells(1) [OF assms(1) run] assms(3,4) have r: "r \<in> set (nb_cells nb')"
    by (cases nb) (cases nb', simp)
  from preprocess_Inr [OF run] assms(1,2) have
    "preprocess_cells self resources 0 (nb_cells nb) h = (Inr (nb_cells nb'), h')"
    by auto
  from preprocess_cells_Inr_ok [OF assms(1) this r] assms(5) show False by simp
qed

text \<open>
  Claim C6 says that \<^verbatim>\<open>preprocess\<close> never raises. The code raises on ordinary
  notebooks. \<^verbatim>\<open>preprocess_cell\<close> reads \<^verbatim>\<open>cell.outputs\<close> as an attribute, so a
  kept markdown cell, which has no \<^verbatim>\<open>outputs\<close> entry, raises
  \<^verbatim>\<open>AttributeError\<close> unless it is tagged for clearing; and
  \<^verbatim>\<open>check_output_conditions\<close> reads \<^verbatim>\<open>output.metadata\<close> as an attribute, so an
  output without metadata raises as soon as there is a single-output tag to look for.
  The neighbouring reads (\<^verbatim>\<open>cell.get('tags', [])\<close>, \<^verbatim>\<open>'metadata' in cell\<close>,
  \<^verbatim>\<open>pop(field, None)\<close>) are all guarded. The two runs below are a notebook of one
  markdown cell, and a notebook of one code cell whose only output has no metadata.
\<close>

theorem markdown_cell_raises:
  "cell_remove_tags example_self = Some [''remove''] \<and>
   output_remove_tags example_self = Some [''clear''] \<and>
   example_heap 20 = markdown_cell \<and>
   cell_outputs markdown_cell = None \<and>
   preprocess example_self (example_nb\<lparr>nb_cells := [20]\<rparr>) () example_heap =
     (Inl (AttributeError ''outputs''), example_heap) \<and>
   preprocess example_self (example_nb\<lparr>nb_cells := [21]\<rparr>) ()
       (example_heap(21 := code_cell\<lparr>cell_outputs := Some [plain_output\<lparr>output_metadata := None\<rparr>]\<rparr>)) =
     (Inl (AttributeError ''metadata''),
      example_heap(21 := code_cell\<lparr>cell_outputs := Some [plain_output\<lparr>output_metadata := None\<rparr>]\<rparr>))"
  by (simp add: method_defs example_defs)

end
